theory Spec2Isabelle
  imports Main "HOL-Library.Multiset"
begin

section \<open>The export model of aleph (src/aleph/model/export.py)\<close>

text \<open>
  The module defines one SQLAlchemy model class, \<^verbatim>\<open>Export\<close>. Its methods mutate the
  object they are called on, read the table of all exports through the session, touch
  the local file system and call the archive (a content-addressed blob store).

  The embedding makes these effects explicit. A \<open>world\<close> holds
  \<^item> the heap of export objects, addressed by primary key (SQLAlchemy's identity map
    gives one Python object per primary key, so the key an export has, or gets when it is
    inserted, is the object's address),
  \<^item> the exports of the session in insertion order, which are the rows a query sees (every
    query flushes the session before it reads), and among them the pending ones: those
    added by \<^verbatim>\<open>db.session.add\<close> and not yet inserted, whose \<^verbatim>\<open>id\<close> is still \<^verbatim>\<open>None\<close>. The
    column defaults, which the insert fills in, are in place from construction on; only
    the primary key is kept apart, since the code compares it,
  \<^item> the files of the local file system, by resolved path,
  \<^item> the log of the calls made to the archive, in order.

  What the module imports from other packages is a parameter of the model, collected in
  the record \<open>env\<close>: the digest behind \<^verbatim>\<open>checksum\<close>, \<^verbatim>\<open>safe_filename\<close>, \<^verbatim>\<open>make_key\<close>,
  \<^verbatim>\<open>stringify\<close>, the inherited \<^verbatim>\<open>to_dict_dates\<close>, and whether a call to the archive
  raises. The clock (\<^verbatim>\<open>datetime.utcnow()\<close>) is an argument of the functions that read it.
\<close>

subsection \<open>Values\<close>

type_synonym path = "string list"
  \<comment> \<open>a resolved \<^verbatim>\<open>pathlib.Path\<close>, as its components below the root\<close>

type_synonym bytes = string

type_synonym datetime = int
  \<comment> \<open>microseconds since \<^verbatim>\<open>datetime.min\<close>, 0001-01-01T00:00:00\<close>

type_synonym timedelta = int
  \<comment> \<open>microseconds\<close>

text \<open>
  The exceptions the module can raise or let through. \<open>RuntimeError\<close> carries the two
  arguments \<^verbatim>\<open>publish\<close> gives it (the text and the export); \<open>AttributeError\<close> carries the
  name of the attribute that was read and is not there; \<open>Raised\<close> is an exception coming
  out of the archive, with its class name and its message.
\<close>

datatype exn =
    RuntimeError string nat
  | AttributeError string
  | TypeError
  | FileNotFoundError path
  | OverflowError
  | Raised string string

text \<open>What a serialised export holds: the values of \<^verbatim>\<open>to_dict\<close>.\<close>

datatype pyval =
    PyNone
  | PyStr string
  | PyLazy string  \<comment> \<open>the lazy string of \<^verbatim>\<open>lazy_gettext\<close>, by its message id\<close>
  | PyInt int
  | PyBool bool
  | PyDatetime datetime
  | PyDict "(string \<times> string) list"

subsection \<open>The record\<close>

text \<open>
  The columns of the class and the attribute \<^verbatim>\<open>_file_path\<close>, which is no column and
  lives only on the Python object. A column the code tests against \<^verbatim>\<open>None\<close>, or that is
  nullable and never given a value by \<^verbatim>\<open>create\<close>, is an option.

  The class body gives \<^verbatim>\<open>_file_path\<close> no initial value and there is no \<^verbatim>\<open>__init__\<close>: the
  only assignment is in \<^verbatim>\<open>set_filepath\<close>. So the attribute is \<open>Unset\<close> on an object as
  \<^verbatim>\<open>cls()\<close> or a query makes it, and reading it then raises \<^verbatim>\<open>AttributeError\<close>. Once
  assigned it holds a path; \<open>Assigned None\<close> is the attribute holding \<^verbatim>\<open>None\<close>, which is what
  the guard \<^verbatim>\<open>if not self._file_path\<close> of \<^verbatim>\<open>publish\<close> tests for and no method of the module
  assigns.
\<close>

datatype 'a attribute = Unset | Assigned 'a

record export =
  created_at :: datetime
  updated_at :: datetime
  label :: string
  operation :: string
  creator_id :: int
  collection_id :: "int option"
  expires_at :: "datetime option"
  deleted :: "bool option"
  export_status :: string
  content_hash :: "string option"
  file_size :: "nat option"
  file_name :: "string option"
  mime_type :: "string option"
  meta :: "(string \<times> string) list"
  file_path :: "path option attribute"

definition STATUS_PENDING :: string where
  "STATUS_PENDING = ''pending''"

definition STATUS_SUCCESSFUL :: string where
  "STATUS_SUCCESSFUL = ''successful''"

definition STATUS_FAILED :: string where
  "STATUS_FAILED = ''failed''"

definition lazy_gettext :: "string \<Rightarrow> pyval" where
  "lazy_gettext s = PyLazy s"

definition EXPORT_STATUS :: "string \<rightharpoonup> pyval" where
  "EXPORT_STATUS = map_of
     [(STATUS_PENDING, lazy_gettext ''pending''),
      (STATUS_SUCCESSFUL, lazy_gettext ''successful''),
      (STATUS_FAILED, lazy_gettext ''failed'')]"

definition DEFAULT_STATUS :: string where
  "DEFAULT_STATUS = STATUS_PENDING"

definition DEFAULT_EXPIRATION :: timedelta where
  "DEFAULT_EXPIRATION = 30 * 86400 * 1000000"

subsection \<open>The world and the imported functions\<close>

datatype archive_call =
    ArchivePublish string path "string option"
  | ArchiveDeletePublication string "string option"

record world =
  objs :: "nat \<Rightarrow> export"
  rows :: "nat list"
  pending :: "nat list"
  fs :: "path \<rightharpoonup> bytes"
  archive_log :: "archive_call list"

record env =
  digest :: "bytes \<Rightarrow> string"
  safe_filename :: "path \<Rightarrow> string option"
  make_key :: "string \<Rightarrow> int \<Rightarrow> string"
  stringify :: "int \<Rightarrow> string"
  to_dict_dates :: "export \<Rightarrow> (string \<times> pyval) list"
  archive_raises :: "archive_call list \<Rightarrow> archive_call \<Rightarrow> exn option"

type_synonym 'a result = "(exn + 'a) \<times> world"

definition update_obj :: "world \<Rightarrow> nat \<Rightarrow> (export \<Rightarrow> export) \<Rightarrow> world" where
  "update_obj w self f = w\<lparr>objs := (objs w)(self := f (objs w self))\<rparr>"

text \<open>
  \<^verbatim>\<open>db.session.add\<close> makes an object that is not in the session pending; \<open>flush\<close> is the
  insert of the pending objects, which gives them their \<^verbatim>\<open>id\<close>. \<open>export_id\<close> is the value
  of \<^verbatim>\<open>self.id\<close>: the key of an export that has been inserted, \<^verbatim>\<open>None\<close> otherwise.
\<close>

definition session_add :: "world \<Rightarrow> nat \<Rightarrow> world" where
  "session_add w self =
     (if self \<in> set (rows w) then w
      else w\<lparr>rows := rows w @ [self], pending := pending w @ [self]\<rparr>)"

definition flush :: "world \<Rightarrow> world" where
  "flush w = w\<lparr>pending := []\<rparr>"

definition export_id :: "world \<Rightarrow> nat \<Rightarrow> nat option" where
  "export_id w self =
     (if self \<in> set (rows w) \<and> self \<notin> set (pending w) then Some self else None)"

text \<open>
  A call to the archive is logged whether it succeeds or raises; \<open>archive_raises\<close> decides
  which, from the calls made so far and the call itself.
\<close>

definition archive_invoke :: "env \<Rightarrow> world \<Rightarrow> archive_call \<Rightarrow> unit result" where
  "archive_invoke env w c =
     (let w' = w\<lparr>archive_log := archive_log w @ [c]\<rparr>
      in case archive_raises env (archive_log w) c of
           None \<Rightarrow> (Inr (), w')
         | Some ex \<Rightarrow> (Inl ex, w'))"

text \<open>\<^verbatim>\<open>servicelayer.archive.util.checksum\<close>: the digest of the file's bytes, \<^verbatim>\<open>None\<close> for no file.\<close>

definition checksum :: "env \<Rightarrow> world \<Rightarrow> path \<Rightarrow> string option" where
  "checksum env w p = (case fs w p of None \<Rightarrow> None | Some bs \<Rightarrow> Some (digest env bs))"

text \<open>\<^verbatim>\<open>Path.rename\<close>, as POSIX does it: the target is replaced, a missing source raises.\<close>

definition rename :: "world \<Rightarrow> path \<Rightarrow> path \<Rightarrow> unit result" where
  "rename w src dst =
     (case fs w src of
        None \<Rightarrow> (Inl (FileNotFoundError src), w)
      | Some bs \<Rightarrow> (Inr (), w\<lparr>fs := ((fs w)(src := None))(dst \<mapsto> bs)\<rparr>))"

subsection \<open>The methods\<close>

definition namespace :: "env \<Rightarrow> world \<Rightarrow> nat \<Rightarrow> string" where
  "namespace env w self = make_key env ''role'' (creator_id (objs w self))"

definition set_status :: "world \<Rightarrow> nat \<Rightarrow> string \<Rightarrow> unit result" where
  "set_status w self status =
     (if EXPORT_STATUS status \<noteq> None
      then (Inr (), session_add (update_obj w self (\<lambda>e. e\<lparr>export_status := status\<rparr>)) self)
      else (Inr (), w))"

text \<open>
  \<^verbatim>\<open>set_filepath\<close>. The file system of the model holds regular files only, so a path
  that \<^verbatim>\<open>stat\<close> finds is one that \<^verbatim>\<open>checksum\<close> reads.
\<close>

definition set_filepath :: "env \<Rightarrow> world \<Rightarrow> nat \<Rightarrow> path \<Rightarrow> unit result" where
  "set_filepath env w self p =
     (let file_name' = safe_filename env p
      in case fs w p of
           None \<Rightarrow> (Inl (FileNotFoundError p), w)
         | Some bs \<Rightarrow>
             (Inr (), update_obj w self (\<lambda>e. e\<lparr>file_name := file_name',
                                              file_size := Some (length bs),
                                              file_path := Assigned (Some p),
                                              content_hash := checksum env w p\<rparr>)))"

definition publish :: "env \<Rightarrow> world \<Rightarrow> nat \<Rightarrow> unit result" where
  "publish env w self =
     (case file_path (objs w self) of
        Unset \<Rightarrow> (Inl (AttributeError ''_file_path''), w)
      | Assigned None \<Rightarrow>
          (Inl (RuntimeError ''file path not present for export: %r'' self), w)
      | Assigned (Some fp) \<Rightarrow>
          (case content_hash (objs w self) of
             None \<Rightarrow> (Inl TypeError, w)
           | Some h \<Rightarrow>
               (let p = butlast fp @ [h]
                in case rename w fp p of
                     (Inl ex, w1) \<Rightarrow> (Inl ex, w1)
                   | (Inr _, w1) \<Rightarrow>
                       (case archive_invoke env w1
                               (ArchivePublish (namespace env w1 self) p (mime_type (objs w1 self))) of
                          (Inl ex, w2) \<Rightarrow> (Inl ex, snd (set_status w2 self STATUS_FAILED))
                        | (Inr _, w2) \<Rightarrow>
                            (case set_status w2 self STATUS_SUCCESSFUL of
                               (Inl ex, w3) \<Rightarrow> (Inl ex, snd (set_status w3 self STATUS_FAILED))
                             | (Inr _, w3) \<Rightarrow> (Inr (), w3))))))"

text \<open>
  \<^verbatim>\<open>_should_delete_publication\<close>: is there no other row with this content hash that is not
  marked deleted? The three filters are those of the query; SQLAlchemy compares with
  \<^verbatim>\<open>IS NULL\<close> when \<^verbatim>\<open>self.content_hash\<close> is \<^verbatim>\<open>None\<close>, which is the equality of options, and
  \<^verbatim>\<open>isnot(True)\<close> keeps the rows whose flag is false or null.

  The filters are built before the query runs, from the values \<^verbatim>\<open>self\<close> has then. For an
  export that is not yet inserted \<^verbatim>\<open>self.id\<close> is \<^verbatim>\<open>None\<close>, and \<^verbatim>\<open>Export.id != None\<close> is
  \<^verbatim>\<open>id IS NOT NULL\<close>, which every row satisfies. \<^verbatim>\<open>q.first()\<close> then flushes the session and
  reads, so the rows it reads include the export itself. The function returns its answer
  and leaves the session flushed.
\<close>

definition export_all :: "world \<Rightarrow> nat list" where
  \<comment> \<open>Modelled from the spec: \<^verbatim>\<open>Export.all()\<close> is inherited from \<^verbatim>\<open>DatedModel\<close>, which is not
      among the sources; the spec has the live-referrer query range over all records.\<close>
  "export_all w = rows w"

definition first :: "'a list \<Rightarrow> 'a option" where
  "first q = (case q of [] \<Rightarrow> None | x # _ \<Rightarrow> Some x)"

definition should_delete_publication :: "world \<Rightarrow> nat \<Rightarrow> bool \<times> world" where
  "should_delete_publication w self =
     (let self_hash = content_hash (objs w self);
          self_id = export_id w self;
          q = filter (\<lambda>r. content_hash (objs w r) = self_hash) (export_all w);
          q = filter (\<lambda>r. deleted (objs w r) \<noteq> Some True) q;
          q = filter (\<lambda>r. case self_id of None \<Rightarrow> True | Some i \<Rightarrow> r \<noteq> i) q
      in (first q = None, flush w))"

definition delete_publication :: "env \<Rightarrow> world \<Rightarrow> nat \<Rightarrow> unit result" where
  "delete_publication env w self =
     (case should_delete_publication w self of
        (True, w0) \<Rightarrow>
          (case archive_invoke env w0
                  (ArchiveDeletePublication (namespace env w0 self) (content_hash (objs w0 self))) of
             (Inl ex, w1) \<Rightarrow> (Inl ex, w1)
           | (Inr _, w1) \<Rightarrow>
               (Inr (), session_add (update_obj w1 self (\<lambda>e. e\<lparr>deleted := Some True\<rparr>)) self))
      | (False, w0) \<Rightarrow>
          (Inr (), session_add (update_obj w0 self (\<lambda>e. e\<lparr>deleted := Some True\<rparr>)) self))"

subsection \<open>The factory\<close>

text \<open>
  \<^verbatim>\<open>cls()\<close>: every column is null but those with a default, which the model has in place
  from here on, and \<^verbatim>\<open>_file_path\<close> is not set. The creation stamps are the inherited
  record metadata.
\<close>

definition new_export :: "datetime \<Rightarrow> export" where
  "new_export now =
     \<lparr>created_at = now, updated_at = now, label = [], operation = [], creator_id = 0,
      collection_id = None, expires_at = None, deleted = Some False,
      export_status = DEFAULT_STATUS, content_hash = None, file_size = None,
      file_name = None, mime_type = None, meta = [], file_path = Unset\<rparr>"

definition fresh_id :: "world \<Rightarrow> nat" where
  "fresh_id w = Suc (fold max (rows w) 0)"

text \<open>
  \<^verbatim>\<open>datetime + timedelta\<close> raises \<^verbatim>\<open>OverflowError\<close> when the sum leaves the years 1 to 9999
  (3652059 days).
\<close>

definition MAX_DATETIME :: datetime where
  "MAX_DATETIME = 3652059 * 86400 * 1000000"

definition datetime_add :: "datetime \<Rightarrow> timedelta \<Rightarrow> exn + datetime" where
  "datetime_add t d =
     (if 0 \<le> t + d \<and> t + d < MAX_DATETIME then Inr (t + d) else Inl OverflowError)"

text \<open>
  \<^verbatim>\<open>expires_after or cls.DEFAULT_EXPIRATION\<close>: Python takes the default when the left
  operand is falsy, which \<^verbatim>\<open>None\<close> is and \<^verbatim>\<open>timedelta(0)\<close> is.
\<close>

definition or_default :: "timedelta option \<Rightarrow> timedelta" where
  "or_default expires_after =
     (case expires_after of
        None \<Rightarrow> DEFAULT_EXPIRATION
      | Some d \<Rightarrow> if d = 0 then DEFAULT_EXPIRATION else d)"

text \<open>
  \<^verbatim>\<open>create\<close>; \<open>collection\<close> is the id of the collection object. An exception leaves the
  new object unreferenced, so the world is the one before the call.
\<close>

definition create ::
  "env \<Rightarrow> world \<Rightarrow> datetime \<Rightarrow> string \<Rightarrow> int \<Rightarrow> string \<Rightarrow> path option \<Rightarrow>
   timedelta option \<Rightarrow> int option \<Rightarrow> string option \<Rightarrow> nat result" where
  "create env w now operation' role_id label' file_path' expires_after collection mime_type' =
     (let self = fresh_id w;
          w1 = w\<lparr>objs := (objs w)(self := new_export now)\<rparr>;
          w2 = update_obj w1 self
                 (\<lambda>e. e\<lparr>creator_id := role_id, operation := operation', label := label'\<rparr>)
      in case (case file_path' of
                 None \<Rightarrow> (Inr (), w2)
               | Some p \<Rightarrow> set_filepath env w2 self p) of
           (Inl ex, _) \<Rightarrow> (Inl ex, w)
         | (Inr _, w3) \<Rightarrow>
             (let w4 = (case collection of
                          None \<Rightarrow> w3
                        | Some c \<Rightarrow> update_obj w3 self (\<lambda>e. e\<lparr>collection_id := Some c\<rparr>));
                  w5 = update_obj w4 self (\<lambda>e. e\<lparr>mime_type := mime_type'\<rparr>)
              in case datetime_add now (or_default expires_after) of
                   Inl ex \<Rightarrow> (Inl ex, w)
                 | Inr t \<Rightarrow>
                     (Inr self,
                      session_add (update_obj w5 self (\<lambda>e. e\<lparr>expires_at := Some t\<rparr>)) self)))"

subsection \<open>The queries\<close>

text \<open>
  A query is the list of the primary keys it yields when it is run: it flushes the
  session first, so it ranges over the pending exports too. \<^verbatim>\<open>cls.deleted == deleted\<close> is
  SQL equality: a row whose flag is null satisfies it for neither value.
\<close>

definition get_expired :: "world \<Rightarrow> datetime \<Rightarrow> bool option \<Rightarrow> nat list" where
  "get_expired w now deleted' =
     (let q = filter (\<lambda>r. expires_at (objs w r) \<noteq> None) (export_all w);
          q = filter (\<lambda>r. case expires_at (objs w r) of None \<Rightarrow> False | Some t \<Rightarrow> t \<le> now) q
      in case deleted' of
           None \<Rightarrow> q
         | Some d \<Rightarrow> filter (\<lambda>r. deleted (objs w r) = Some d) q)"

definition by_id :: "world \<Rightarrow> nat \<Rightarrow> int option \<Rightarrow> bool \<Rightarrow> nat option" where
  "by_id w i role_id deleted' =
     (let q = filter (\<lambda>r. r = i) (export_all w);
          q = (case role_id of
                 None \<Rightarrow> q
               | Some ro \<Rightarrow> filter (\<lambda>r. creator_id (objs w r) = ro) q);
          q = (if \<not> deleted' then filter (\<lambda>r. deleted (objs w r) = Some False) q else q)
      in first q)"

text \<open>
  \<^verbatim>\<open>order_by(cls.created_at.desc())\<close> is a sort on the negated stamp; the sort is stable,
  where SQL leaves the order of equal stamps open.
\<close>

definition by_role_id :: "world \<Rightarrow> int \<Rightarrow> bool \<Rightarrow> nat list" where
  "by_role_id w role_id deleted' =
     (let q = export_all w;
          q = filter (\<lambda>r. creator_id (objs w r) = role_id) q;
          q = (if \<not> deleted' then filter (\<lambda>r. deleted (objs w r) = Some False) q else q)
      in sort_key (\<lambda>r. - created_at (objs w r)) q)"

subsection \<open>Serialisation\<close>

definition opt :: "('a \<Rightarrow> pyval) \<Rightarrow> 'a option \<Rightarrow> pyval" where
  "opt f x = (case x of None \<Rightarrow> PyNone | Some v \<Rightarrow> f v)"

text \<open>
  \<^verbatim>\<open>to_dict\<close>: the dictionary of the dates, then the label of a recognised status under
  \<^verbatim>\<open>export_status\<close>, then \<^verbatim>\<open>data.update\<close> with the twelve entries of the literal, which
  replace the entries already there.
\<close>

definition to_dict :: "env \<Rightarrow> world \<Rightarrow> nat \<Rightarrow> (string \<rightharpoonup> pyval)" where
  "to_dict env w self =
     (let e = objs w self;
          data = map_of (to_dict_dates env e);
          data = (case EXPORT_STATUS (export_status e) of
                    None \<Rightarrow> data
                  | Some l \<Rightarrow> data(''export_status'' \<mapsto> l))
      in data ++ map_of
           [(''id'', opt (\<lambda>i. PyStr (stringify env (int i))) (export_id w self)),
            (''label'', PyStr (label e)),
            (''operation'', PyStr (operation e)),
            (''creator_id'', PyStr (stringify env (creator_id e))),
            (''collection_id'', opt PyInt (collection_id e)),
            (''expires_at'', opt PyDatetime (expires_at e)),
            (''deleted'', opt PyBool (deleted e)),
            (''export_status'', PyStr (export_status e)),
            (''content_hash'', opt PyStr (content_hash e)),
            (''file_size'', opt (\<lambda>n. PyInt (int n)) (file_size e)),
            (''file_name'', opt PyStr (file_name e)),
            (''meta'', PyDict (meta e))])"

subsection \<open>Sequences of calls\<close>

text \<open>
  The calls that change an export, as data, and a run of them: each call is made in the
  world the one before left, whether that one returned or raised.
\<close>

datatype call =
    Create datetime string int string "path option" "timedelta option" "int option" "string option"
  | SetFilepath nat path
  | Publish nat
  | SetStatus nat string
  | DeletePublication nat

fun step :: "env \<Rightarrow> world \<Rightarrow> call \<Rightarrow> world" where
  "step env w (Create now op ro la fp ea co mt) = snd (create env w now op ro la fp ea co mt)"
| "step env w (SetFilepath self p) = snd (set_filepath env w self p)"
| "step env w (Publish self) = snd (publish env w self)"
| "step env w (SetStatus self s) = snd (set_status w self s)"
| "step env w (DeletePublication self) = snd (delete_publication env w self)"

fun run :: "env \<Rightarrow> world \<Rightarrow> call list \<Rightarrow> world" where
  "run env w [] = w"
| "run env w (c # cs) = run env (step env w c) cs"

subsection \<open>A concrete world\<close>

text \<open>
  Two exports of role 7 in the table: export 1 has no file, export 2 has staged the
  ten-byte file \<^verbatim>\<open>/tmp/f.csv\<close>. In \<open>example_env\<close> the archive never raises, in
  \<open>failing_env\<close> it always does.
\<close>

definition example_env :: env where
  "example_env =
     \<lparr>digest = (\<lambda>bs. ''sha1:'' @ bs),
      safe_filename = (\<lambda>p. if p = [] then None else Some (last p)),
      make_key = (\<lambda>k i. k @ (if i = 7 then '':7'' else '':0'')),
      stringify = (\<lambda>i. if i = 7 then ''7'' else ''1''),
      to_dict_dates = (\<lambda>e. [(''created_at'', PyDatetime (created_at e)),
                             (''updated_at'', PyDatetime (updated_at e))]),
      archive_raises = (\<lambda>log c. None)\<rparr>"

definition failing_env :: env where
  "failing_env =
     example_env\<lparr>archive_raises := (\<lambda>log c. Some (Raised ''StoreError'' ''backend unavailable''))\<rparr>"

definition example_export :: export where
  "example_export =
     (new_export 1000)\<lparr>creator_id := 7, operation := ''search_export'', label := ''E1''\<rparr>"

definition staged_export :: export where
  "staged_export =
     example_export\<lparr>file_name := Some ''f.csv'', file_size := Some 10,
                    file_path := Assigned (Some [''tmp'', ''f.csv'']),
                    content_hash := Some ''sha1:0123456789''\<rparr>"

definition example_world :: world where
  "example_world =
     \<lparr>objs = (\<lambda>_. example_export)(2 := staged_export),
      rows = [1, 2],
      pending = [],
      fs = [[''tmp'', ''f.csv''] \<mapsto> ''0123456789''],
      archive_log = []\<rparr>"

text \<open>
  In \<open>null_flag_world\<close> the flag \<open>deleted\<close> of export 1 is null; in \<open>expiring_world\<close>
  export 2 is the older of the two and expires at 5000.
\<close>

definition null_flag_world :: world where
  "null_flag_world = update_obj example_world 1 (\<lambda>e. e\<lparr>deleted := None\<rparr>)"

definition expiring_world :: world where
  "expiring_world =
     update_obj example_world 2 (\<lambda>e. e\<lparr>expires_at := Some 5000, created_at := 2000\<rparr>)"

text \<open>
  In \<open>shared_world\<close> export 1 has the content hash of export 2. In \<open>flaky_env\<close> the
  archive answers its first call and raises on every later one.
\<close>

definition shared_world :: world where
  "shared_world =
     update_obj example_world 1 (\<lambda>e. e\<lparr>content_hash := Some ''sha1:0123456789''\<rparr>)"

definition flaky_env :: env where
  "flaky_env =
     example_env\<lparr>archive_raises :=
       (\<lambda>log c. if log = [] then None else Some (Raised ''StoreError'' ''backend unavailable''))\<rparr>"

text \<open>
  \<open>unstaged_world\<close> is \<open>example_world\<close> after \<^verbatim>\<open>create\<close> with no file, and \<open>created_world\<close>
  after \<^verbatim>\<open>create\<close> with a file of its own, \<^verbatim>\<open>/tmp/h.csv\<close>; the new export is export 3 in
  both, and it is pending.
\<close>

definition unstaged_world :: world where
  "unstaged_world =
     snd (create example_env example_world 1000 ''search_export'' 7 ''E3'' None None None None)"

definition created_world :: world where
  "created_world =
     snd (create example_env (example_world\<lparr>fs := [[''tmp'', ''h.csv''] \<mapsto> ''abc'']\<rparr>)
            1000 ''search_export'' 7 ''E3'' (Some [''tmp'', ''h.csv'']) None None None)"

text \<open>
  In \<open>twin_world\<close> there are two files with the same ten bytes. The worlds after it are
  those of staging one file for each export, publishing both, and deleting the publication
  of export 1 and then of export 2.
\<close>

definition twin_world :: world where
  "twin_world =
     example_world\<lparr>fs := [[''tmp'', ''f.csv''] \<mapsto> ''0123456789'',
                          [''tmp'', ''g.csv''] \<mapsto> ''0123456789'']\<rparr>"

definition twin_staged :: world where
  "twin_staged =
     snd (set_filepath example_env
            (snd (set_filepath example_env twin_world 1 [''tmp'', ''f.csv'']))
            2 [''tmp'', ''g.csv''])"

definition twin_published :: world where
  "twin_published = snd (publish example_env (snd (publish example_env twin_staged 1)) 2)"

definition twin_deleted_one :: world where
  "twin_deleted_one = snd (delete_publication example_env twin_published 1)"

definition twin_deleted_both :: world where
  "twin_deleted_both = snd (delete_publication example_env twin_deleted_one 2)"

subsection \<open>Statuses\<close>

text \<open>
  The three values of \<^verbatim>\<open>EXPORT_STATUS\<close>, and the two of them that \<^verbatim>\<open>publish\<close> assigns.
\<close>

definition recognized :: "string \<Rightarrow> bool" where
  "recognized s \<longleftrightarrow> s = STATUS_PENDING \<or> s = STATUS_SUCCESSFUL \<or> s = STATUS_FAILED"

definition terminal :: "string \<Rightarrow> bool" where
  "terminal s \<longleftrightarrow> s = STATUS_SUCCESSFUL \<or> s = STATUS_FAILED"

section \<open>Properties\<close>

subsection \<open>Basic facts\<close>

lemma EXPORT_STATUS_dom:
  "(\<exists>l. EXPORT_STATUS s = Some l) \<longleftrightarrow>
     s = STATUS_PENDING \<or> s = STATUS_SUCCESSFUL \<or> s = STATUS_FAILED"
  by (simp add: EXPORT_STATUS_def)

lemma session_add_fields:
  "objs (session_add w self) = objs w"
  "fs (session_add w self) = fs w"
  "archive_log (session_add w self) = archive_log w"
  "set (rows (session_add w self)) = insert self (set (rows w))"
  by (auto simp: session_add_def)

lemma session_add_member:
  "self \<in> set (rows w) \<Longrightarrow> session_add w self = w"
  by (simp add: session_add_def)

lemma update_obj_fields:
  "objs (update_obj w self f) = (objs w)(self := f (objs w self))"
  "fs (update_obj w self f) = fs w"
  "archive_log (update_obj w self f) = archive_log w"
  "rows (update_obj w self f) = rows w"
  "pending (update_obj w self f) = pending w"
  by (simp_all add: update_obj_def)

lemma flush_fields:
  "objs (flush w) = objs w"
  "fs (flush w) = fs w"
  "archive_log (flush w) = archive_log w"
  "rows (flush w) = rows w"
  "pending (flush w) = []"
  by (simp_all add: flush_def)

lemma set_status_recognized:
  assumes "s = STATUS_PENDING \<or> s = STATUS_SUCCESSFUL \<or> s = STATUS_FAILED"
  shows "set_status w self s =
           (Inr (), session_add (update_obj w self (\<lambda>e. e\<lparr>export_status := s\<rparr>)) self)"
  using assms by (simp add: set_status_def EXPORT_STATUS_dom)

lemma set_status_unrecognized:
  assumes "s \<noteq> STATUS_PENDING" "s \<noteq> STATUS_SUCCESSFUL" "s \<noteq> STATUS_FAILED"
  shows "set_status w self s = (Inr (), w)"
  using assms by (simp add: set_status_def EXPORT_STATUS_dom)

lemmas example_defs =
  example_world_def example_export_def staged_export_def example_env_def failing_env_def
  new_export_def DEFAULT_STATUS_def STATUS_PENDING_def STATUS_SUCCESSFUL_def STATUS_FAILED_def
  null_flag_world_def expiring_world_def update_obj_def export_all_def
  shared_world_def flaky_env_def flush_def export_id_def

subsection \<open>publish\<close>

lemma publish_unset:
  assumes "file_path (objs w self) = Unset"
  shows "publish env w self = (Inl (AttributeError ''_file_path''), w)"
  using assms by (simp add: publish_def)

lemma publish_guard:
  assumes "file_path (objs w self) = Assigned None"
  shows "publish env w self =
           (Inl (RuntimeError ''file path not present for export: %r'' self), w)"
  using assms by (simp add: publish_def)

text \<open>
  C1. The claim's case is an export on which \<^verbatim>\<open>set_filepath\<close> was never called. Such an
  export has no attribute \<^verbatim>\<open>_file_path\<close>, so the guard of \<^verbatim>\<open>publish()\<close> does not come to raise
  its \<^verbatim>\<open>RuntimeError\<close> (the spec's \<^verbatim>\<open>InvalidStateError\<close>): reading the attribute raises
  \<^verbatim>\<open>AttributeError\<close> first. For export 3 of \<open>unstaged_world\<close>, made by \<^verbatim>\<open>create\<close> with no file:
  \<^verbatim>\<open>publish()\<close> raises \<^verbatim>\<open>AttributeError\<close>; the world is the one before the call, and the
  status is still pending.
\<close>

theorem publish_never_staged_attribute_error:
  "file_path (objs unstaged_world 3) = Unset \<and>
   export_status (objs unstaged_world 3) = ''pending'' \<and>
   fst (publish example_env unstaged_world 3) = Inl (AttributeError ''_file_path'') \<and>
   snd (publish example_env unstaged_world 3) = unstaged_world"
proof -
  have unset: "file_path (objs unstaged_world 3) = Unset"
    and status: "export_status (objs unstaged_world 3) = ''pending''"
    by (simp_all add: unstaged_world_def create_def fresh_id_def datetime_add_def or_default_def
        MAX_DATETIME_def DEFAULT_EXPIRATION_def session_add_def example_defs)
  show ?thesis
    using unset status publish_unset [OF unset, of example_env] by simp
qed

text \<open>
  C3. An export with a staged file, whose file is there to be renamed: when the archive's
  \<^verbatim>\<open>publish\<close> raises \<open>ex\<close>, \<^verbatim>\<open>publish()\<close> raises that same \<open>ex\<close> (class and message as
  they came), and the world it leaves has the export's status set to failed; nothing else
  of the export changes, and the call is in the archive's log.
\<close>

theorem publish_store_failure:
  assumes "file_path (objs w self) = Assigned (Some fp)"
    and "content_hash (objs w self) = Some h"
    and "fs w fp = Some bs"
    and "archive_raises env (archive_log w)
           (ArchivePublish (namespace env w self) (butlast fp @ [h]) (mime_type (objs w self)))
         = Some ex"
  shows "fst (publish env w self) = Inl ex \<and>
         export_status (objs (snd (publish env w self)) self) = STATUS_FAILED \<and>
         objs (snd (publish env w self)) =
           (objs w)(self := (objs w self)\<lparr>export_status := STATUS_FAILED\<rparr>) \<and>
         archive_log (snd (publish env w self)) =
           archive_log w @
           [ArchivePublish (namespace env w self) (butlast fp @ [h]) (mime_type (objs w self))]"
  using assms
  by (simp add: publish_def rename_def archive_invoke_def namespace_def set_status_recognized
      session_add_fields update_obj_fields Let_def)

theorem publish_store_failure_witness:
  "fst (publish failing_env example_world 2) = Inl (Raised ''StoreError'' ''backend unavailable'') \<and>
   export_status (objs example_world 2) = ''pending'' \<and>
   export_status (objs (snd (publish failing_env example_world 2)) 2) = ''failed''"
  using publish_store_failure [of example_world 2 "[''tmp'', ''f.csv'']" "''sha1:0123456789''"
      "''0123456789''" failing_env "Raised ''StoreError'' ''backend unavailable''"]
  by (simp add: example_defs)

subsection \<open>set\_status\<close>

text \<open>
  C7. \<^verbatim>\<open>set_status(status)\<close> never raises. When \<open>status\<close> is one of pending, successful
  and failed it assigns \<open>export_status\<close> of the export, and changes no other field, no
  other export, no file and no archive call; for every other string it leaves the whole
  world as it was.
\<close>

theorem set_status_recognized_only:
  "fst (set_status w self s) = Inr () \<and>
   (if s = STATUS_PENDING \<or> s = STATUS_SUCCESSFUL \<or> s = STATUS_FAILED
    then objs (snd (set_status w self s)) =
           (objs w)(self := (objs w self)\<lparr>export_status := s\<rparr>) \<and>
         fs (snd (set_status w self s)) = fs w \<and>
         archive_log (snd (set_status w self s)) = archive_log w
    else snd (set_status w self s) = w)"
proof (cases "s = STATUS_PENDING \<or> s = STATUS_SUCCESSFUL \<or> s = STATUS_FAILED")
  case True
  then show ?thesis
    by (simp add: set_status_recognized session_add_fields update_obj_fields)
next
  case False
  then show ?thesis
    by (simp add: set_status_unrecognized)
qed

theorem set_status_recognized_only_witness:
  "snd (set_status example_world 1 ''done'') = example_world \<and>
   export_status (objs (snd (set_status example_world 1 ''failed'')) 1) = ''failed''"
  using set_status_recognized_only [of example_world 1 "''done''"]
    set_status_recognized_only [of example_world 1 "''failed''"]
  by (simp add: example_defs)

subsection \<open>The queries\<close>

text \<open>
  C8. \<^verbatim>\<open>get_expired()\<close> with its default argument (\<^verbatim>\<open>deleted=False\<close>) yields exactly the
  rows whose \<open>expires_at\<close> is not null and at most \<open>now\<close> and whose flag \<open>deleted\<close> is
  false, each once and in the order of the table; a row with a null \<open>expires_at\<close> is never
  among them.
\<close>

theorem get_expired_default:
  "get_expired w now (Some False) =
     filter (\<lambda>r. \<exists>t. expires_at (objs w r) = Some t \<and> t \<le> now \<and>
                     deleted (objs w r) = Some False)
       (export_all w) \<and>
   (\<forall>r \<in> set (get_expired w now (Some False)). expires_at (objs w r) \<noteq> None)"
  unfolding get_expired_def Let_def
  by (auto intro!: filter_cong split: option.splits)

theorem get_expired_default_witness:
  "get_expired expiring_world 6000 (Some False) = [2] \<and>
   get_expired expiring_world 4000 (Some False) = [] \<and>
   expires_at (objs expiring_world 1) = None \<and>
   expires_at (objs expiring_world 2) = Some 5000"
  using get_expired_default [of expiring_world 6000] get_expired_default [of expiring_world 4000]
  by (simp add: example_defs)

text \<open>
  C9, as the code has it. \<^verbatim>\<open>by_role_id(role_id)\<close> with its default argument yields the
  rows whose \<open>creator_id\<close> is the role and whose flag \<open>deleted\<close> is false, each once,
  the newest first.
\<close>

theorem by_role_id_default:
  "mset (by_role_id w ro False) =
     mset (filter (\<lambda>r. creator_id (objs w r) = ro \<and> deleted (objs w r) = Some False)
             (export_all w)) \<and>
   sorted_wrt (\<lambda>a b. created_at (objs w b) \<le> created_at (objs w a)) (by_role_id w ro False)"
proof -
  let ?k = "\<lambda>r. - created_at (objs w r)"
  have "sorted (map ?k (by_role_id w ro False))"
    by (simp add: by_role_id_def)
  then have "sorted_wrt (\<lambda>a b. ?k a \<le> ?k b) (by_role_id w ro False)"
    by (simp add: sorted_wrt_map)
  moreover have "mset (by_role_id w ro False) =
     mset (filter (\<lambda>r. creator_id (objs w r) = ro \<and> deleted (objs w r) = Some False)
             (export_all w))"
    by (simp add: by_role_id_def)
  ultimately show ?thesis by simp
qed

theorem by_role_id_default_witness:
  "by_role_id expiring_world 7 False = [2, 1] \<and>
   created_at (objs expiring_world 1) = 1000 \<and>
   created_at (objs expiring_world 2) = 2000 \<and>
   by_role_id null_flag_world 7 False = [2]"
  using by_role_id_default [of expiring_world 7] by_role_id_default [of null_flag_world 7]
  by (simp add: by_role_id_def example_defs)

text \<open>
  The filter is \<^verbatim>\<open>cls.deleted == False\<close>, so a row whose flag is null is left out although
  its flag is not true: in \<open>null_flag_world\<close> export 1 belongs to role 7, its flag is null,
  and it is not returned.
\<close>

theorem by_role_id_null_flag_counterexample:
  "1 \<in> set (export_all null_flag_world) \<and>
   creator_id (objs null_flag_world 1) = 7 \<and>
   deleted (objs null_flag_world 1) \<noteq> Some True \<and>
   1 \<notin> set (by_role_id null_flag_world 7 False)"
  by (simp add: by_role_id_def example_defs)

subsection \<open>create\<close>

lemma create_returns:
  assumes "create env w now op ro la fp ea co mt = (Inr self, w')"
  shows "expires_at (objs w' self) = Some (now + or_default ea)"
  using assms
  by (auto simp: create_def Let_def datetime_add_def session_add_fields update_obj_fields
      split: prod.splits sum.splits option.splits if_splits)

text \<open>
  C10. Whenever \<^verbatim>\<open>create\<close> returns an export, its \<open>expires_at\<close> is not null: it is the
  current time plus \<open>expires_after\<close> when that is given and not zero, and the current time
  plus the default of 30 days when \<open>expires_after\<close> is \<^verbatim>\<open>None\<close> or the zero duration. So
  no call of \<^verbatim>\<open>create\<close> returns an export that never expires.
\<close>

theorem create_expires_at:
  assumes "create env w now op ro la fp ea co mt = (Inr self, w')"
  shows "expires_at (objs w' self) \<noteq> None \<and>
         expires_at (objs w' self) =
           Some (now + (case ea of
                          None \<Rightarrow> DEFAULT_EXPIRATION
                        | Some d \<Rightarrow> if d = 0 then DEFAULT_EXPIRATION else d)) \<and>
         DEFAULT_EXPIRATION = 30 * (24 * 60 * 60 * 1000000)"
  using create_returns [OF assms]
  by (simp add: or_default_def DEFAULT_EXPIRATION_def split: option.splits)

theorem create_expires_at_witness:
  "fst (create example_env example_world 1000 ''op'' 7 ''l'' None (Some 0) None None) = Inr 3 \<and>
   expires_at (objs (snd (create example_env example_world 1000 ''op'' 7 ''l'' None (Some 0)
                            None None)) 3) = Some (1000 + 2592000000000)"
  using create_expires_at [of example_env example_world 1000 "''op''" 7 "''l''" None "Some 0"
      None None 3
      "snd (create example_env example_world 1000 ''op'' 7 ''l'' None (Some 0) None None)"]
  by (simp add: create_def fresh_id_def datetime_add_def or_default_def MAX_DATETIME_def
      DEFAULT_EXPIRATION_def session_add_def example_defs)

subsection \<open>delete\_publication\<close>

lemma first_filter_None: "first (filter P xs) = None \<longleftrightarrow> (\<forall>x \<in> set xs. \<not> P x)"
proof -
  have "first (filter P xs) = None \<longleftrightarrow> filter P xs = []"
    by (simp add: first_def split: list.splits)
  then show ?thesis by (simp add: filter_empty_conv)
qed

lemma should_delete_publication_world:
  "snd (should_delete_publication w self) = flush w"
  by (simp add: should_delete_publication_def Let_def)

lemma should_delete_publication_iff:
  assumes "export_id w self \<noteq> None"
  shows "fst (should_delete_publication w self) \<longleftrightarrow>
     \<not> (\<exists>r \<in> set (export_all w). r \<noteq> self \<and>
            content_hash (objs w r) = content_hash (objs w self) \<and>
            deleted (objs w r) \<noteq> Some True)"
proof -
  have "export_id w self = Some self"
    using assms by (simp add: export_id_def split: if_splits)
  then show ?thesis
    unfolding should_delete_publication_def Let_def filter_filter
    by (auto simp: first_filter_None)
qed

lemma should_delete_publication_other:
  assumes "r \<in> set (export_all w)" and "r \<noteq> self"
    and "content_hash (objs w r) = content_hash (objs w self)"
    and "deleted (objs w r) \<noteq> Some True"
  shows "\<not> fst (should_delete_publication w self)"
proof -
  have "export_id w self = None \<or> export_id w self = Some self"
    by (simp add: export_id_def)
  then show ?thesis
    using assms
    unfolding should_delete_publication_def Let_def filter_filter
    by (auto simp: first_filter_None)
qed

lemma should_delete_publication_before_insert:
  assumes "self \<in> set (export_all w)" and "export_id w self = None"
    and "deleted (objs w self) \<noteq> Some True"
  shows "\<not> fst (should_delete_publication w self)"
  using assms
  unfolding should_delete_publication_def Let_def filter_filter
  by (auto simp: first_filter_None)

lemma delete_publication_log:
  "archive_log (snd (delete_publication env w self)) =
     (if fst (should_delete_publication w self)
      then archive_log w @
           [ArchiveDeletePublication (namespace env w self) (content_hash (objs w self))]
      else archive_log w)"
  by (simp add: delete_publication_def should_delete_publication_def archive_invoke_def
      namespace_def session_add_fields update_obj_fields flush_fields Let_def
      split: option.splits bool.splits)

lemma delete_publication_returns:
  "fst (delete_publication env w self) = Inr () \<longleftrightarrow>
     \<not> fst (should_delete_publication w self) \<or>
     archive_raises env (archive_log w)
       (ArchiveDeletePublication (namespace env w self) (content_hash (objs w self))) = None"
  by (simp add: delete_publication_def should_delete_publication_def archive_invoke_def
      namespace_def flush_fields Let_def split: option.splits bool.splits)

lemma delete_publication_objs:
  "objs (snd (delete_publication env w self)) =
     (if fst (delete_publication env w self) = Inr ()
      then (objs w)(self := (objs w self)\<lparr>deleted := Some True\<rparr>)
      else objs w)"
  by (simp add: delete_publication_def should_delete_publication_def archive_invoke_def
      session_add_fields update_obj_fields flush_fields Let_def
      split: option.splits bool.splits)

lemma delete_publication_frame:
  "export_status (objs (snd (delete_publication env w self)) r) = export_status (objs w r)"
  "file_path (objs (snd (delete_publication env w self)) r) = file_path (objs w r)"
  "set (rows w) \<subseteq> set (rows (snd (delete_publication env w self)))"
  by (auto simp: delete_publication_def should_delete_publication_def archive_invoke_def
      session_add_fields update_obj_fields flush_fields Let_def
      split: option.splits bool.splits)

lemma delete_publication_rows:
  assumes "self \<in> set (rows w)"
  shows "rows (snd (delete_publication env w self)) = rows w"
    and "pending (snd (delete_publication env w self)) = []"
  using assms
  by (simp_all add: delete_publication_def should_delete_publication_def archive_invoke_def
      session_add_def update_obj_fields flush_fields Let_def
      split: option.splits bool.splits)




text \<open>
  An export that is not yet inserted is outside the statement above. Its \<^verbatim>\<open>id\<close> is \<^verbatim>\<open>None\<close>
  when the filter is built, the query that follows flushes it into the table, and it is
  then its own referrer: no call is made. Export 3 of \<open>created_world\<close> is the only export
  with its content hash, and \<^verbatim>\<open>delete_publication()\<close> right after \<^verbatim>\<open>create\<close> leaves the
  archive alone; after a flush the call is made.
\<close>

lemma delete_publication_before_insert:
  "export_id created_world 3 = None \<and>
   content_hash (objs created_world 3) = Some ''sha1:abc'' \<and>
   content_hash (objs created_world 1) \<noteq> Some ''sha1:abc'' \<and>
   content_hash (objs created_world 2) \<noteq> Some ''sha1:abc'' \<and>
   export_all created_world = [1, 2, 3] \<and>
   archive_log (snd (delete_publication example_env created_world 3)) = [] \<and>
   deleted (objs (snd (delete_publication example_env created_world 3)) 3) = Some True \<and>
   archive_log (snd (delete_publication example_env (flush created_world) 3)) =
     [ArchiveDeletePublication ''role:7'' (Some ''sha1:abc'')]"
  by (simp add: created_world_def create_def set_filepath_def checksum_def fresh_id_def
      datetime_add_def or_default_def MAX_DATETIME_def DEFAULT_EXPIRATION_def
      delete_publication_def should_delete_publication_def first_def
      archive_invoke_def namespace_def session_add_def Let_def example_defs)

subsection \<open>to\_dict\<close>

lemma to_dict_export_status:
  "to_dict env w self ''export_status'' = Some (PyStr (export_status (objs w self)))"
  by (simp add: to_dict_def Let_def map_add_def)

lemma to_dict_keys:
  "dom (to_dict env w self) =
     fst ` set (to_dict_dates env (objs w self)) \<union>
     {''id'', ''label'', ''operation'', ''creator_id'', ''collection_id'', ''expires_at'',
      ''deleted'', ''export_status'', ''content_hash'', ''file_size'', ''file_name'', ''meta''}"
  by (auto simp: to_dict_def Let_def dom_map_of_conv_image_fst split: option.splits)

text \<open>
  C4. \<^verbatim>\<open>to_dict\<close> puts the label of a recognised status under \<^verbatim>\<open>export_status\<close> and then
  replaces it: the dictionary given to \<^verbatim>\<open>data.update\<close> has the key \<^verbatim>\<open>export_status\<close> too,
  with the stored string. For the pending export 1 of \<open>example_world\<close> the label is the
  lazy string of \<^verbatim>\<open>lazy_gettext("pending")\<close>, and the serialised value is the plain string.
  The key \<^verbatim>\<open>_file_path\<close> is not among the keys.
\<close>

theorem to_dict_status_is_stored_string:
  "export_status (objs example_world 1) = ''pending'' \<and>
   EXPORT_STATUS ''pending'' = Some (PyLazy ''pending'') \<and>
   to_dict example_env example_world 1 ''export_status'' = Some (PyStr ''pending'') \<and>
   ''_file_path'' \<notin> dom (to_dict example_env example_world 1)"
  by (simp add: to_dict_export_status to_dict_keys EXPORT_STATUS_def lazy_gettext_def example_defs)

subsection \<open>Frames of the methods\<close>

lemma fold_max_ge: "x \<in> set xs \<Longrightarrow> x \<le> fold max xs (a::nat)"
proof -
  assume "x \<in> set xs"
  then have "x \<le> Max (set (a # xs))" by simp
  then show ?thesis by (simp only: Max.set_eq_fold)
qed

lemma fresh_id_fresh: "fresh_id w \<notin> set (rows w)"
  using fold_max_ge [of "fresh_id w" "rows w" 0] by (auto simp: fresh_id_def)

lemma set_filepath_frame:
  "rows (snd (set_filepath env w self p)) = rows w"
  "fs (snd (set_filepath env w self p)) = fs w"
  "archive_log (snd (set_filepath env w self p)) = archive_log w"
  "r \<noteq> self \<Longrightarrow> objs (snd (set_filepath env w self p)) r = objs w r"
  "export_status (objs (snd (set_filepath env w self p)) r) = export_status (objs w r)"
  "deleted (objs (snd (set_filepath env w self p)) r) = deleted (objs w r)"
  "creator_id (objs (snd (set_filepath env w self p)) r) = creator_id (objs w r)"
  "mime_type (objs (snd (set_filepath env w self p)) r) = mime_type (objs w r)"
  by (simp_all add: set_filepath_def update_obj_fields Let_def split: option.splits)

lemma set_filepath_staged:
  assumes "fs w p = Some bs"
  shows "fst (set_filepath env w self p) = Inr ()"
    and "content_hash (objs (snd (set_filepath env w self p)) self) = Some (digest env bs)"
    and "file_path (objs (snd (set_filepath env w self p)) self) = Assigned (Some p)"
    and "file_size (objs (snd (set_filepath env w self p)) self) = Some (length bs)"
  using assms by (simp_all add: set_filepath_def checksum_def update_obj_fields Let_def)

lemma publish_cases:
  "snd (publish env w self) = w \<or>
   (\<exists>fp h bs s. file_path (objs w self) = Assigned (Some fp) \<and>
       content_hash (objs w self) = Some h \<and>
       fs w fp = Some bs \<and> (s = STATUS_SUCCESSFUL \<or> s = STATUS_FAILED) \<and>
       (fst (publish env w self) = Inr () \<longleftrightarrow> s = STATUS_SUCCESSFUL) \<and>
       snd (publish env w self) =
         session_add (update_obj
           (w\<lparr>fs := ((fs w)(fp := None))(butlast fp @ [h] \<mapsto> bs),
              archive_log := archive_log w @
                [ArchivePublish (namespace env w self) (butlast fp @ [h]) (mime_type (objs w self))]\<rparr>)
           self (\<lambda>e. e\<lparr>export_status := s\<rparr>)) self)"
  by (auto simp: publish_def rename_def archive_invoke_def namespace_def set_status_recognized
      STATUS_SUCCESSFUL_def STATUS_FAILED_def
      Let_def split: option.splits attribute.splits)

lemma publish_objs:
  "\<exists>s. objs (snd (publish env w self)) = (objs w)(self := (objs w self)\<lparr>export_status := s\<rparr>) \<and>
       (s = export_status (objs w self) \<or> s = STATUS_SUCCESSFUL \<or> s = STATUS_FAILED)"
proof -
  consider "snd (publish env w self) = w"
    | fp h bs s where "s = STATUS_SUCCESSFUL \<or> s = STATUS_FAILED"
      "snd (publish env w self) =
         session_add (update_obj
           (w\<lparr>fs := ((fs w)(fp := None))(butlast fp @ [h] \<mapsto> bs),
              archive_log := archive_log w @
                [ArchivePublish (namespace env w self) (butlast fp @ [h]) (mime_type (objs w self))]\<rparr>)
           self (\<lambda>e. e\<lparr>export_status := s\<rparr>)) self"
    using publish_cases [of env w self] by blast
  then show ?thesis
  proof cases
  assume "snd (publish env w self) = w"
  then have "objs (snd (publish env w self)) =
      (objs w)(self := (objs w self)\<lparr>export_status := export_status (objs w self)\<rparr>)"
    by simp
  then show ?thesis by blast
next
  fix fp h bs s
  assume s: "s = STATUS_SUCCESSFUL \<or> s = STATUS_FAILED"
    and eq: "snd (publish env w self) =
         session_add (update_obj
           (w\<lparr>fs := ((fs w)(fp := None))(butlast fp @ [h] \<mapsto> bs),
              archive_log := archive_log w @
                [ArchivePublish (namespace env w self) (butlast fp @ [h]) (mime_type (objs w self))]\<rparr>)
           self (\<lambda>e. e\<lparr>export_status := s\<rparr>)) self"
  have "objs (snd (publish env w self)) = (objs w)(self := (objs w self)\<lparr>export_status := s\<rparr>)"
    by (simp add: eq session_add_fields update_obj_fields)
  with s show ?thesis by blast
qed
qed

lemma publish_rows: "set (rows w) \<subseteq> set (rows (snd (publish env w self)))"
  using publish_cases [of env w self]
  by (auto simp: session_add_fields update_obj_fields)

lemma publish_rows_member:
  "self \<in> set (rows w) \<Longrightarrow> rows (snd (publish env w self)) = rows w"
  using publish_cases [of env w self]
  by (auto simp: session_add_def update_obj_fields)

lemma set_status_frame:
  "set (rows w) \<subseteq> set (rows (snd (set_status w self s)))"
  "r \<noteq> self \<Longrightarrow> objs (snd (set_status w self s)) r = objs w r"
  by (auto simp: set_status_def session_add_fields update_obj_fields)

lemma create_frame:
  "set (rows w) \<subseteq> set (rows (snd (create env w now op ro la fp ea co mt)))"
  "r \<in> set (rows w) \<Longrightarrow> objs (snd (create env w now op ro la fp ea co mt)) r = objs w r"
proof -
  have fresh: "r \<in> set (rows w) \<Longrightarrow> r \<noteq> fresh_id w" for r
    using fresh_id_fresh [of w] by blast
  show "set (rows w) \<subseteq> set (rows (snd (create env w now op ro la fp ea co mt)))"
    by (auto simp: create_def set_filepath_def Let_def session_add_fields update_obj_fields
        split: option.splits sum.splits prod.splits)
  show "r \<in> set (rows w) \<Longrightarrow> objs (snd (create env w now op ro la fp ea co mt)) r = objs w r"
    using fresh [of r]
    by (auto simp: create_def set_filepath_def Let_def session_add_fields update_obj_fields
        split: option.splits sum.splits prod.splits)
qed

lemma step_rows: "set (rows w) \<subseteq> set (rows (step env w c))"
  by (cases c) (simp_all add: create_frame set_filepath_frame publish_rows set_status_frame
      delete_publication_frame)

lemma step_status:
  assumes "self \<in> set (rows w)"
  shows "export_status (objs (step env w c) self) = export_status (objs w self) \<or>
         (c = Publish self \<and> terminal (export_status (objs (step env w c) self))) \<or>
         (\<exists>s. c = SetStatus self s \<and> recognized s \<and>
              export_status (objs (step env w c) self) = s)"
proof (cases c)
  case (Create now op ro la fp ea co mt)
  then show ?thesis using assms by (simp add: create_frame)
next
  case (SetFilepath r p)
  then show ?thesis by (simp add: set_filepath_frame)
next
  case (Publish r)
  then show ?thesis
    using publish_objs [of env w r] by (cases "r = self") (auto simp: terminal_def)
next
  case (SetStatus r s)
  show ?thesis
  proof (cases "r = self \<and> recognized s")
    case True
    then show ?thesis
      using SetStatus
      by (simp add: recognized_def set_status_recognized session_add_fields update_obj_fields)
  next
    case False
    then have "export_status (objs (snd (set_status w r s)) self) = export_status (objs w self)"
      by (cases "r = self") (auto simp: recognized_def set_status_unrecognized set_status_frame)
    then show ?thesis using SetStatus by simp
  qed
next
  case (DeletePublication r)
  then show ?thesis by (simp add: delete_publication_frame)
qed

lemma terminal_recognized: "terminal s \<Longrightarrow> recognized s"
  by (simp add: terminal_def recognized_def)

lemma run_recognized:
  assumes "self \<in> set (rows w)" and "recognized (export_status (objs w self))"
  shows "recognized (export_status (objs (run env w cs) self))"
  using assms
proof (induction cs arbitrary: w)
  case Nil
  then show ?case by simp
next
  case (Cons c cs)
  have "self \<in> set (rows (step env w c))"
    using Cons.prems(1) step_rows [of w env c] by blast
  moreover have "recognized (export_status (objs (step env w c) self))"
    using step_status [OF Cons.prems(1), of env c] Cons.prems(2) terminal_recognized
    by auto
  ultimately show ?case using Cons.IH by simp
qed

lemma run_terminal:
  assumes "self \<in> set (rows w)" and "terminal (export_status (objs w self))"
    and "\<forall>s. SetStatus self s \<notin> set cs"
  shows "terminal (export_status (objs (run env w cs) self))"
  using assms
proof (induction cs arbitrary: w)
  case Nil
  then show ?case by simp
next
  case (Cons c cs)
  have "self \<in> set (rows (step env w c))"
    using Cons.prems(1) step_rows [of w env c] by blast
  moreover have "c \<noteq> SetStatus self s" for s
    using Cons.prems(3) by auto
  then have "terminal (export_status (objs (step env w c) self))"
    using step_status [OF Cons.prems(1), of env c] Cons.prems(2)
    by metis
  moreover have "\<forall>s. SetStatus self s \<notin> set cs"
    using Cons.prems(3) by simp
  ultimately show ?case using Cons.IH by simp
qed

subsection \<open>The attribute \<^verbatim>\<open>_file_path\<close> along a sequence of calls\<close>

text \<open>
  No method assigns \<^verbatim>\<open>None\<close> to \<^verbatim>\<open>_file_path\<close>: a call leaves the attribute as it was or
  assigns a path, and \<^verbatim>\<open>create\<close> returns an export whose attribute is unset or a path. So
  the state in which the guard of \<^verbatim>\<open>publish\<close> raises its \<^verbatim>\<open>RuntimeError\<close> does not arise
  from the calls of the module.
\<close>

lemma set_filepath_file_path:
  "file_path (objs (snd (set_filepath env w self p)) r) = file_path (objs w r) \<or>
   file_path (objs (snd (set_filepath env w self p)) r) = Assigned (Some p)"
  by (simp add: set_filepath_def update_obj_fields Let_def split: option.splits)

lemma step_file_path:
  assumes "r \<in> set (rows w)"
  shows "file_path (objs (step env w c) r) = file_path (objs w r) \<or>
         (\<exists>p. file_path (objs (step env w c) r) = Assigned (Some p))"
proof (cases c)
  case (Create now op ro la fp ea co mt)
  then show ?thesis using assms by (simp add: create_frame)
next
  case (SetFilepath self p)
  then show ?thesis using set_filepath_file_path [of env w self p r] by auto
next
  case (Publish self)
  then show ?thesis using publish_objs [of env w self] by (cases "self = r") auto
next
  case (SetStatus self s)
  then show ?thesis
    by (cases "self = r") (auto simp: set_status_def session_add_fields update_obj_fields)
next
  case (DeletePublication self)
  then show ?thesis by (simp add: delete_publication_frame)
qed

lemma run_file_path:
  assumes "r \<in> set (rows w)" and "file_path (objs w r) \<noteq> Assigned None"
  shows "file_path (objs (run env w cs) r) \<noteq> Assigned None"
  using assms
proof (induction cs arbitrary: w)
  case Nil
  then show ?case by simp
next
  case (Cons c cs)
  have "r \<in> set (rows (step env w c))"
    using Cons.prems(1) step_rows [of w env c] by blast
  moreover have "file_path (objs (step env w c) r) \<noteq> Assigned None"
    using step_file_path [OF Cons.prems(1), of env c] Cons.prems(2) by auto
  ultimately show ?case using Cons.IH by simp
qed

lemma create_file_path:
  assumes "create env w now op ro la fp ea co mt = (Inr self, w')"
  shows "file_path (objs w' self) = (case fp of None \<Rightarrow> Unset | Some p \<Rightarrow> Assigned (Some p))"
  using assms
  by (auto simp: create_def set_filepath_def new_export_def Let_def datetime_add_def
      session_add_fields update_obj_fields
      split: prod.splits sum.splits option.splits if_splits)

subsection \<open>The status along a sequence of calls\<close>

text \<open>
  C6, as the code has it. The module has no guard on the order of statuses. For an export
  of the table, one call leaves \<open>export_status\<close> as it was, or is \<^verbatim>\<open>publish()\<close> on it and
  sets successful or failed, or is \<^verbatim>\<open>set_status(s)\<close> on it with a recognised \<open>s\<close> and
  sets \<open>s\<close>, whatever the status was. Hence along every sequence of calls a recognised
  status stays recognised, and along a sequence with no \<^verbatim>\<open>set_status\<close> on the export a
  successful or failed export stays successful or failed: it does not return to pending.
\<close>

theorem export_status_transitions:
  assumes "self \<in> set (rows w)"
  shows "(export_status (objs (step env w c) self) = export_status (objs w self) \<or>
          (c = Publish self \<and> terminal (export_status (objs (step env w c) self))) \<or>
          (\<exists>s. c = SetStatus self s \<and> recognized s \<and>
               export_status (objs (step env w c) self) = s)) \<and>
         (recognized (export_status (objs w self)) \<longrightarrow>
            recognized (export_status (objs (run env w cs) self))) \<and>
         (terminal (export_status (objs w self)) \<and> (\<forall>s. SetStatus self s \<notin> set cs) \<longrightarrow>
            terminal (export_status (objs (run env w cs) self)))"
  using step_status [OF assms, of env c] run_recognized [OF assms, of env cs]
    run_terminal [OF assms, of cs env]
  by blast

theorem export_status_transitions_witness:
  "2 \<in> set (rows (run flaky_env example_world [Publish 2])) \<and>
   terminal (export_status (objs (run flaky_env example_world [Publish 2]) 2)) \<and>
   terminal (export_status (objs (run flaky_env (run flaky_env example_world [Publish 2])
       [SetFilepath 2 [''tmp'', ''sha1:0123456789''], Publish 2, DeletePublication 2]) 2))"
  using export_status_transitions [of 2 "run flaky_env example_world [Publish 2]" flaky_env
      "Publish 2" "[SetFilepath 2 [''tmp'', ''sha1:0123456789''], Publish 2, DeletePublication 2]"]
  by (simp add: terminal_def publish_def rename_def archive_invoke_def namespace_def
      set_status_def set_filepath_def checksum_def EXPORT_STATUS_def session_add_def Let_def
      delete_publication_def should_delete_publication_def first_def example_defs)


text \<open>
  A status can be reversed, twice over, in \<open>example_world\<close> with the archive of
  \<open>flaky_env\<close>: after a successful \<^verbatim>\<open>publish()\<close>, \<^verbatim>\<open>set_status("pending")\<close> returns export 2
  to pending; and staging the published file again and publishing, with the archive now
  raising, turns successful into failed.
\<close>

theorem export_status_reversed_counterexample:
  "export_status (objs example_world 2) = ''pending'' \<and>
   export_status (objs (run flaky_env example_world [Publish 2]) 2) = ''successful'' \<and>
   export_status (objs (run flaky_env example_world
       [Publish 2, SetStatus 2 ''pending'']) 2) = ''pending'' \<and>
   export_status (objs (run flaky_env example_world
       [Publish 2, SetFilepath 2 [''tmp'', ''sha1:0123456789''], Publish 2]) 2) = ''failed''"
  by (simp add: publish_def rename_def archive_invoke_def namespace_def set_status_def
      set_filepath_def checksum_def EXPORT_STATUS_def session_add_def Let_def example_defs)

subsection \<open>Two exports of one file\<close>

lemma publish_frame:
  "content_hash (objs (snd (publish env w self)) r) = content_hash (objs w r)"
  "deleted (objs (snd (publish env w self)) r) = deleted (objs w r)"
  "creator_id (objs (snd (publish env w self)) r) = creator_id (objs w r)"
  using publish_objs [of env w self] by auto

text \<open>
  C5. Two exports of the table, of the same creator, stage files with the same bytes, one
  after the other; both are then published and both publications return; then
  \<^verbatim>\<open>delete_publication()\<close> is called on the first and after it on the second. The second
  export is not marked deleted at the start, and no third row that is not marked deleted
  has the content hash of the files. Then both exports have the same content hash, the
  digest of the bytes, and the same namespace; the first deletion makes no call to the
  archive and marks the first export deleted; the second deletion calls the archive's
  \<^verbatim>\<open>delete_publication\<close> with that namespace and hash, and marks the second export deleted
  when the call returns.
\<close>

theorem shared_blob_reclaimed_last:
  assumes stage1: "set_filepath env w0 e1 p1 = (Inr (), w1)"
    and stage2: "set_filepath env w1 e2 p2 = (Inr (), w2)"
    and same_bytes: "fs w0 p1 = Some bs" "fs w1 p2 = Some bs"
    and publish1: "publish env w2 e1 = (Inr (), w3)"
    and publish2: "publish env w3 e2 = (Inr (), w4)"
    and delete1: "delete_publication env w4 e1 = (r5, w5)"
    and delete2: "delete_publication env w5 e2 = (r6, w6)"
    and distinct: "e1 \<noteq> e2"
    and in_table: "e1 \<in> set (rows w0)" "e2 \<in> set (rows w0)"
    and same_creator: "creator_id (objs w0 e1) = creator_id (objs w0 e2)"
    and live: "deleted (objs w0 e2) \<noteq> Some True"
    and no_others: "\<forall>r \<in> set (rows w0). r \<noteq> e1 \<and> r \<noteq> e2 \<longrightarrow>
           content_hash (objs w0 r) \<noteq> Some (digest env bs) \<or> deleted (objs w0 r) = Some True"
  shows "content_hash (objs w2 e1) = Some (digest env bs) \<and>
         content_hash (objs w2 e2) = Some (digest env bs) \<and>
         namespace env w4 e1 = namespace env w4 e2 \<and>
         r5 = Inr () \<and>
         archive_log w5 = archive_log w4 \<and>
         deleted (objs w5 e1) = Some True \<and>
         archive_log w6 = archive_log w5 @
           [ArchiveDeletePublication (namespace env w4 e2) (Some (digest env bs))] \<and>
         (r6 = Inr () \<longrightarrow> deleted (objs w6 e2) = Some True)"
proof -
  have w1: "w1 = snd (set_filepath env w0 e1 p1)" using stage1 by simp
  have w2: "w2 = snd (set_filepath env w1 e2 p2)" using stage2 by simp
  have w3: "w3 = snd (publish env w2 e1)" using publish1 by simp
  have w4: "w4 = snd (publish env w3 e2)" using publish2 by simp
  have w5: "w5 = snd (delete_publication env w4 e1)" and r5: "r5 = fst (delete_publication env w4 e1)"
    using delete1 by simp_all
  have w6: "w6 = snd (delete_publication env w5 e2)" and r6: "r6 = fst (delete_publication env w5 e2)"
    using delete2 by simp_all
  let ?H = "Some (digest env bs)"
  \<comment> \<open>staging\<close>
  have h1: "content_hash (objs w1 e1) = ?H"
    unfolding w1 using set_filepath_staged(2) [OF same_bytes(1)] .
  have h2: "content_hash (objs w2 e2) = ?H"
    unfolding w2 using set_filepath_staged(2) [OF same_bytes(2)] .
  have h21: "content_hash (objs w2 e1) = ?H"
    unfolding w2 using h1 distinct by (simp add: set_filepath_frame(4))
  have other2: "content_hash (objs w2 r) = content_hash (objs w0 r)" if "r \<noteq> e1" "r \<noteq> e2" for r
    unfolding w2 w1 using that by (simp add: set_filepath_frame(4))
  have del2: "deleted (objs w2 r) = deleted (objs w0 r)" for r
    unfolding w2 w1 by (simp add: set_filepath_frame(6))
  have cre2: "creator_id (objs w2 r) = creator_id (objs w0 r)" for r
    unfolding w2 w1 by (simp add: set_filepath_frame(7))
  have rows2: "rows w2 = rows w0"
    unfolding w2 w1 by (simp add: set_filepath_frame(1))
  \<comment> \<open>publication\<close>
  have hash4: "content_hash (objs w4 r) = content_hash (objs w2 r)" for r
    unfolding w4 w3 by (simp add: publish_frame)
  have del4: "deleted (objs w4 r) = deleted (objs w0 r)" for r
    unfolding w4 w3 by (simp add: publish_frame del2)
  have cre4: "creator_id (objs w4 r) = creator_id (objs w0 r)" for r
    unfolding w4 w3 by (simp add: publish_frame cre2)
  have rows3: "rows w3 = rows w0"
    unfolding w3 using in_table(1) rows2 by (simp add: publish_rows_member)
  have rows4: "rows w4 = rows w0"
    unfolding w4 using in_table(2) rows3 by (simp add: publish_rows_member)
  have ns: "namespace env w4 e1 = namespace env w4 e2"
    using same_creator by (simp add: namespace_def cre4)
  \<comment> \<open>the first deletion finds the second export\<close>
  have keep: "\<not> fst (should_delete_publication w4 e1)"
  proof (rule should_delete_publication_other [where r = e2])
    show "e2 \<in> set (export_all w4)"
      using in_table(2) by (simp add: export_all_def rows4)
    show "e2 \<noteq> e1" using distinct by simp
    show "content_hash (objs w4 e2) = content_hash (objs w4 e1)"
      by (simp add: hash4 h2 h21)
    show "deleted (objs w4 e2) \<noteq> Some True"
      using live by (simp add: del4)
  qed
  have r5_ok: "r5 = Inr ()"
    unfolding r5 using keep by (simp add: delete_publication_returns)
  have log5: "archive_log w5 = archive_log w4"
    unfolding w5 using keep by (simp add: delete_publication_log)
  have objs5: "objs w5 = (objs w4)(e1 := (objs w4 e1)\<lparr>deleted := Some True\<rparr>)"
    unfolding w5 using r5_ok r5 by (simp add: delete_publication_objs)
  have rows5: "rows w5 = rows w0" and pending5: "pending w5 = []"
    unfolding w5 using in_table(1) rows4 by (simp_all add: delete_publication_rows)
  have id5: "export_id w5 e2 \<noteq> None"
    using in_table(2) by (simp add: export_id_def rows5 pending5)
  \<comment> \<open>the second deletion finds no live referrer\<close>
  have hash5: "content_hash (objs w5 e2) = ?H"
    using distinct h2 by (simp add: objs5 hash4)
  have "deleted (objs w5 r) = Some True \<or> content_hash (objs w5 r) \<noteq> content_hash (objs w5 e2)"
    if "r \<in> set (rows w0)" "r \<noteq> e2" for r
  proof (cases "r = e1")
    case True
    then show ?thesis by (simp add: objs5)
  next
    case False
    then have "content_hash (objs w5 r) = content_hash (objs w0 r)"
      and "deleted (objs w5 r) = deleted (objs w0 r)"
      using that by (simp_all add: objs5 hash4 del4 other2)
    then show ?thesis using no_others that False hash5 by auto
  qed
  then have reclaim: "fst (should_delete_publication w5 e2)"
    unfolding should_delete_publication_iff [OF id5] export_all_def rows5 by blast
  have log6: "archive_log w6 = archive_log w5 @
      [ArchiveDeletePublication (namespace env w4 e2) ?H]"
    unfolding w6 using reclaim distinct hash5
    by (simp add: delete_publication_log objs5 namespace_def)
  have del6: "r6 = Inr () \<longrightarrow> deleted (objs w6 e2) = Some True"
    unfolding w6 r6 by (simp add: delete_publication_objs)
  show ?thesis
    using h21 h2 ns r5_ok log5 objs5 log6 del6 by simp
qed

theorem shared_blob_reclaimed_last_witness:
  "content_hash (objs twin_staged 1) = Some ''sha1:0123456789'' \<and>
   content_hash (objs twin_staged 2) = Some ''sha1:0123456789'' \<and>
   export_status (objs twin_published 1) = ''successful'' \<and>
   export_status (objs twin_published 2) = ''successful'' \<and>
   archive_log twin_deleted_one = archive_log twin_published \<and>
   deleted (objs twin_deleted_one 1) = Some True \<and>
   deleted (objs twin_deleted_one 2) = Some False \<and>
   archive_log twin_deleted_both =
     archive_log twin_published @
     [ArchiveDeletePublication ''role:7'' (Some ''sha1:0123456789'')] \<and>
   deleted (objs twin_deleted_both 2) = Some True"
  using shared_blob_reclaimed_last [where env = example_env and ?w0.0 = twin_world
      and ?e1.0 = 1 and ?e2.0 = 2 and ?p1.0 = "[''tmp'', ''f.csv'']"
      and ?p2.0 = "[''tmp'', ''g.csv'']" and bs = "''0123456789''"
      and ?w1.0 = "snd (set_filepath example_env twin_world 1 [''tmp'', ''f.csv''])"
      and ?w2.0 = twin_staged
      and ?w3.0 = "snd (publish example_env twin_staged 1)"
      and ?w4.0 = twin_published
      and ?r5.0 = "fst (delete_publication example_env twin_published 1)"
      and ?w5.0 = twin_deleted_one
      and ?r6.0 = "fst (delete_publication example_env twin_deleted_one 2)"
      and ?w6.0 = twin_deleted_both]
  by (simp add: twin_world_def twin_staged_def twin_published_def twin_deleted_one_def
      twin_deleted_both_def publish_def rename_def archive_invoke_def namespace_def
      set_status_def set_filepath_def checksum_def EXPORT_STATUS_def session_add_def Let_def
      delete_publication_def should_delete_publication_def first_def example_defs)

end
